theory Spec2Isabelle
  imports Complex_Main "HOL-Library.AList"
begin

unbundle bit_operations_syntax

section \<open>Exceptions\<close>

text \<open>
  Every \<^verbatim>\<open>raise\<close> of the source is a value. \<open>ValueError\<close> carries the statement
  that raised it: the two framing checks of \<^verbatim>\<open>_parse_homgar_payload\<close>, the conversion
  \<^verbatim>\<open>int(.., 16)\<close>, a length check of a decoder, or a marker check (with the index of the
  byte). \<open>HomGarApiError\<close> carries its raise site as well. \<open>ClientError\<close> is
  \<^verbatim>\<open>aiohttp.ClientError\<close>; \<open>KeyError\<close> and \<open>AttributeError\<close> name the missing key or
  attribute; \<open>OtherException\<close> is any other exception the HTTP session raises;
  \<open>AbortFlow\<close> is the host platform's abort signal with its reason.
\<close>

datatype value_error =
    UnexpectedPayloadFormat
  | HexLengthNotEven
  | InvalidLiteral
  | PayloadTooShort
  | MissingMarker nat

datatype api_error =
    LoginHttp int
  | LoginFailed
  | TokenNotAvailable
  | CallHttp int
  | CallFailed

datatype error =
    ValueError value_error
  | HomGarApiError api_error
  | ClientError
  | KeyError string
  | AttributeError string
  | OtherException
  | AbortFlow string

section \<open>Payload decoding helpers\<close>

subsection \<open>The conversion \<^verbatim>\<open>int(s, base)\<close>\<close>

text \<open>
  A Python string is a \<open>string\<close> here: a sequence of characters with code points
  below 256. On such strings \<^verbatim>\<open>int(s, base)\<close>, for a base from 2 to 36, skips leading
  white space (tab, line feed, vertical tab, form feed, carriage return, space, and the
  two white-space characters 0x85 and 0xA0 beyond ASCII), reads an optional sign, an
  optional prefix that fits the base (\<^verbatim>\<open>0x\<close>, \<^verbatim>\<open>0o\<close>, \<^verbatim>\<open>0b\<close>, in either case, with
  one underscore allowed after it), then digits of the base with single underscores
  between them, then trailing white space up to the end of the string. Anything else
  raises \<^verbatim>\<open>ValueError\<close> (\<open>None\<close> here). The interpreter's limit on the number of
  digits of a decimal string is left out.
\<close>

definition py_isspace :: "char \<Rightarrow> bool" where
  "py_isspace c =
     (let n = (of_char c :: nat) in (9 \<le> n \<and> n \<le> 13) \<or> n = 32 \<or> n = 133 \<or> n = 160)"

definition digit_value :: "char \<Rightarrow> int option" where
  "digit_value c =
     (let n = (of_char c :: int) in
      if 48 \<le> n \<and> n \<le> 57 then Some (n - 48)
      else if 97 \<le> n \<and> n \<le> 122 then Some (n - 87)
      else if 65 \<le> n \<and> n \<le> 90 then Some (n - 55)
      else None)"

definition digit :: "int \<Rightarrow> char \<Rightarrow> int option" where
  "digit base c =
     (case digit_value c of None \<Rightarrow> None | Some d \<Rightarrow> if d < base then Some d else None)"

fun digit_run :: "int \<Rightarrow> int \<Rightarrow> string \<Rightarrow> int \<times> string" where
  "digit_run base acc [] = (acc, [])"
| "digit_run base acc [c] =
     (case digit base c of Some d \<Rightarrow> (base * acc + d, []) | None \<Rightarrow> (acc, [c]))"
| "digit_run base acc (c # c' # cs) =
     (case digit base c of
        Some d \<Rightarrow> digit_run base (base * acc + d) (c' # cs)
      | None \<Rightarrow>
          (if c = CHR ''_'' then
             (case digit base c' of
                Some d \<Rightarrow> digit_run base (base * acc + d) cs
              | None \<Rightarrow> (acc, c # c' # cs))
           else (acc, c # c' # cs)))"

definition strip_sign :: "string \<Rightarrow> int \<times> string" where
  "strip_sign s =
     (case s of
        [] \<Rightarrow> (1, s)
      | c # r \<Rightarrow> if c = CHR ''+'' then (1, r) else if c = CHR ''-'' then (- 1, r) else (1, s))"

definition is_prefix_letter :: "int \<Rightarrow> char \<Rightarrow> bool" where
  "is_prefix_letter base x =
     ((base = 16 \<and> (x = CHR ''x'' \<or> x = CHR ''X''))
      \<or> (base = 8 \<and> (x = CHR ''o'' \<or> x = CHR ''O''))
      \<or> (base = 2 \<and> (x = CHR ''b'' \<or> x = CHR ''B'')))"

definition strip_prefix :: "int \<Rightarrow> string \<Rightarrow> string" where
  "strip_prefix base s =
     (case s of
        z # x # r \<Rightarrow>
          if z = CHR ''0'' \<and> is_prefix_letter base x
          then (case r of [] \<Rightarrow> r | u # r' \<Rightarrow> if u = CHR ''_'' then r' else r)
          else s
      | _ \<Rightarrow> s)"

definition py_int_str :: "string \<Rightarrow> int \<Rightarrow> int option" where
  "py_int_str s base =
     (case strip_sign (dropWhile py_isspace s) of
        (sg, s2) \<Rightarrow>
          (case strip_prefix base s2 of
             [] \<Rightarrow> None
           | c # cs \<Rightarrow>
               (case digit base c of
                  None \<Rightarrow> None
                | Some d \<Rightarrow>
                    (case digit_run base d cs of
                       (v, rest) \<Rightarrow>
                         if dropWhile py_isspace rest = [] then Some (sg * v) else None))))"

text \<open>\<^verbatim>\<open>str(n)\<close> of an integer: its decimal digits, after a minus sign when negative.\<close>

fun str_nat :: "nat \<Rightarrow> string" where
  "str_nat n =
     (if n < 10 then [char_of (48 + n)] else str_nat (n div 10) @ [char_of (48 + n mod 10)])"

definition str_int :: "int \<Rightarrow> string" where
  "str_int i = (if i < 0 then CHR ''-'' # str_nat (nat (- i)) else str_nat (nat i))"

subsection \<open>Framing\<close>

text \<open>
  The loop \<^verbatim>\<open>for i in range(0, len(hex_str), 2)\<close> converts the slices
  \<^verbatim>\<open>hex_str[i : i + 2]\<close> from left to right and stops at the first one that
  \<^verbatim>\<open>int\<close> rejects; a last slice of one character (never reached after the length
  check) would be converted as it is.
\<close>

fun hex_pairs :: "string \<Rightarrow> error + int list" where
  "hex_pairs [] = Inr []"
| "hex_pairs [c] =
     (case py_int_str [c] 16 of None \<Rightarrow> Inl (ValueError InvalidLiteral) | Some b \<Rightarrow> Inr [b])"
| "hex_pairs (c # c' # cs) =
     (case py_int_str [c, c'] 16 of
        None \<Rightarrow> Inl (ValueError InvalidLiteral)
      | Some b \<Rightarrow> (case hex_pairs cs of Inl e \<Rightarrow> Inl e | Inr out \<Rightarrow> Inr (b # out)))"

definition parse_homgar_payload :: "string \<Rightarrow> error + int list" where
  "parse_homgar_payload raw =
     (if raw = [] \<or> take 3 raw \<noteq> ''10#'' then Inl (ValueError UnexpectedPayloadFormat)
      else
        (let hex_str = drop 3 raw in
         if length hex_str mod 2 \<noteq> 0 then Inl (ValueError HexLengthNotEven)
         else hex_pairs hex_str))"

definition le16 :: "int list \<Rightarrow> nat \<Rightarrow> int" where
  "le16 bytes index = (bytes ! index) OR push_bit 8 (bytes ! (index + 1))"

text \<open>
  Python floats are modelled as reals: the rounding of IEEE doubles is left out, the
  arithmetic is the source's.
\<close>

definition f10_to_c :: "int \<Rightarrow> real" where
  "f10_to_c raw_f10 = (let f = real_of_int raw_f10 / 10 in (f - 32) / 1.8)"

subsection \<open>The three decoders\<close>

text \<open>Each returned dictionary is a record with one field per key.\<close>

record moisture_simple =
  ms_type :: string
  ms_rssi_dbm :: int
  ms_moisture_percent :: int
  ms_battery_status_code :: int
  ms_raw_bytes :: "int list"

record moisture_full =
  mf_type :: string
  mf_rssi_dbm :: int
  mf_moisture_percent :: int
  mf_temperature_c :: real
  mf_temperature_f10 :: int
  mf_illuminance_lux :: real
  mf_illuminance_raw10 :: int
  mf_battery_status_code :: int
  mf_raw_bytes :: "int list"

record rain =
  rn_type :: string
  rn_rain_last_hour_mm :: real
  rn_rain_last_24h_mm :: real
  rn_rain_last_7d_mm :: real
  rn_rain_total_mm :: real
  rn_rain_last_hour_raw10 :: int
  rn_rain_last_24h_raw10 :: int
  rn_rain_last_7d_raw10 :: int
  rn_rain_total_raw10 :: int
  rn_battery_status_code :: int
  rn_raw_bytes :: "int list"

definition decode_moisture_simple :: "string \<Rightarrow> error + moisture_simple" where
  "decode_moisture_simple raw =
     (case parse_homgar_payload raw of
        Inl e \<Rightarrow> Inl e
      | Inr b \<Rightarrow>
          if length b < 9 then Inl (ValueError PayloadTooShort)
          else if b ! 5 \<noteq> 0x88 then Inl (ValueError (MissingMarker 5))
          else
            (let rssi = (if b ! 1 \<ge> 128 then b ! 1 - 256 else b ! 1);
                 moisture = b ! 6;
                 status_code = push_bit 8 (b ! 7) OR b ! 8
             in Inr \<lparr>ms_type = ''moisture_simple'', ms_rssi_dbm = rssi,
                     ms_moisture_percent = moisture, ms_battery_status_code = status_code,
                     ms_raw_bytes = b\<rparr>))"

definition decode_moisture_full :: "string \<Rightarrow> error + moisture_full" where
  "decode_moisture_full raw =
     (case parse_homgar_payload raw of
        Inl e \<Rightarrow> Inl e
      | Inr b \<Rightarrow>
          if length b < 16 then Inl (ValueError PayloadTooShort)
          else
            (let rssi = (if b ! 1 \<ge> 128 then b ! 1 - 256 else b ! 1);
                 temp_raw_f10 = le16 b 6;
                 temp_c = f10_to_c temp_raw_f10
             in if b ! 8 \<noteq> 0x88 then Inl (ValueError (MissingMarker 8))
                else
                  (let moisture = b ! 9
                   in if b ! 10 \<noteq> 0xC6 then Inl (ValueError (MissingMarker 10))
                      else
                        (let lux_raw10 = le16 b 11;
                             lux = real_of_int lux_raw10 / 10;
                             status_code = push_bit 8 (b ! 14) OR b ! 15
                         in Inr \<lparr>mf_type = ''moisture_full'', mf_rssi_dbm = rssi,
                                 mf_moisture_percent = moisture, mf_temperature_c = temp_c,
                                 mf_temperature_f10 = temp_raw_f10, mf_illuminance_lux = lux,
                                 mf_illuminance_raw10 = lux_raw10,
                                 mf_battery_status_code = status_code, mf_raw_bytes = b\<rparr>))))"

definition decode_rain :: "string \<Rightarrow> error + rain" where
  "decode_rain raw =
     (case parse_homgar_payload raw of
        Inl e \<Rightarrow> Inl e
      | Inr b \<Rightarrow>
          if length b < 24 then Inl (ValueError PayloadTooShort)
          else if \<not> (b ! 3 = 0xFD \<and> b ! 4 = 0x04) then Inl (ValueError (MissingMarker 3))
          else if \<not> (b ! 7 = 0xFD \<and> b ! 8 = 0x05) then Inl (ValueError (MissingMarker 7))
          else if \<not> (b ! 11 = 0xFD \<and> b ! 12 = 0x06) then Inl (ValueError (MissingMarker 11))
          else if b ! 17 \<noteq> 0x97 then Inl (ValueError (MissingMarker 17))
          else
            (let last_hour_raw10 = le16 b 5;
                 last_24h_raw10 = le16 b 9;
                 last_7d_raw10 = le16 b 13;
                 total_raw10 = le16 b 18;
                 status_code = push_bit 8 (b ! 22) OR b ! 23
             in Inr \<lparr>rn_type = ''rain'',
                     rn_rain_last_hour_mm = real_of_int last_hour_raw10 / 10,
                     rn_rain_last_24h_mm = real_of_int last_24h_raw10 / 10,
                     rn_rain_last_7d_mm = real_of_int last_7d_raw10 / 10,
                     rn_rain_total_mm = real_of_int total_raw10 / 10,
                     rn_rain_last_hour_raw10 = last_hour_raw10,
                     rn_rain_last_24h_raw10 = last_24h_raw10,
                     rn_rain_last_7d_raw10 = last_7d_raw10,
                     rn_rain_total_raw10 = total_raw10,
                     rn_battery_status_code = status_code, rn_raw_bytes = b\<rparr>))"

section \<open>Constants\<close>

definition DOMAIN :: string where
  "DOMAIN = ''homgar''"

definition base_url :: string where
  "base_url = ''https://region3.homgarus.com''"

section \<open>Cloud API client\<close>

subsection \<open>Instants and token state\<close>

text \<open>
  A timezone-aware \<^verbatim>\<open>datetime\<close> in UTC is its number of microseconds since the Unix
  epoch, an unbounded integer: the resolution is the source's, the range limits of
  \<^verbatim>\<open>datetime\<close> (years 1 to 9999) are left out. A \<^verbatim>\<open>timedelta\<close> is a number of
  microseconds. \<open>timestamp\<close> is the float \<^verbatim>\<open>datetime.timestamp()\<close> returns, taken as
  the exact quotient; \<open>py_int\<close> is \<^verbatim>\<open>int(x)\<close> on a float, which truncates towards zero.
  For an instant within \<open>2 ^ 33\<close> seconds of the epoch, and for every whole second,
  the double nearest to the quotient has the same integer part, so the composition is
  the source's there; farther from the epoch the double can round up to the next
  second where the quotient truncates to the previous one, and nothing below is stated
  about the exported value of such an instant.
\<close>

type_synonym datetime = int

definition timedelta_minutes :: "int \<Rightarrow> int" where
  "timedelta_minutes m = m * 60000000"

definition timedelta_seconds :: "int \<Rightarrow> int" where
  "timedelta_seconds s = s * 1000000"

definition fromtimestamp :: "int \<Rightarrow> datetime" where
  "fromtimestamp ts = ts * 1000000"

definition timestamp :: "datetime \<Rightarrow> real" where
  "timestamp d = real_of_int d / 1000000"

definition py_int :: "real \<Rightarrow> int" where
  "py_int x = (if 0 \<le> x then \<lfloor>x\<rfloor> else \<lceil>x\<rceil>)"

record client =
  area_code :: string
  email :: string
  password :: string
  token :: "string option"
  refresh_token :: "string option"
  token_expires_at :: "datetime option"

text \<open>The constructor \<^verbatim>\<open>HomGarClient(area_code, email, password, session)\<close>.\<close>

definition init :: "string \<Rightarrow> string \<Rightarrow> string \<Rightarrow> client" where
  "init a m p =
     \<lparr>area_code = a, email = m, password = p,
      token = None, refresh_token = None, token_expires_at = None\<rparr>"

text \<open>
  The dictionary of token fields, as \<^verbatim>\<open>dict.get\<close> reads it: one field per key
  (\<^verbatim>\<open>CONF_TOKEN\<close>, \<^verbatim>\<open>CONF_REFRESH_TOKEN\<close>, \<^verbatim>\<open>CONF_TOKEN_EXPIRES_AT\<close>), \<open>None\<close> for a
  missing key and for a stored \<^verbatim>\<open>None\<close> alike.
\<close>

record token_data =
  conf_token :: "string option"
  conf_refresh_token :: "string option"
  conf_token_expires_at :: "int option"

definition restore_tokens :: "'a token_data_scheme \<Rightarrow> client \<Rightarrow> client" where
  "restore_tokens data c =
     (let c1 = c\<lparr>token := conf_token data, refresh_token := conf_refresh_token data\<rparr>
      in case conf_token_expires_at data of
           None \<Rightarrow> c1
         | Some ts \<Rightarrow> c1\<lparr>token_expires_at := Some (fromtimestamp ts)\<rparr>)"

text \<open>
  A method of the client is a function of the client state that returns its result
  together with the state after the call. \<^verbatim>\<open>export_tokens\<close> reads three attributes and
  assigns none.
\<close>

definition export_tokens :: "client \<Rightarrow> token_data \<times> client" where
  "export_tokens c =
     (\<lparr>conf_token = token c,
       conf_refresh_token = refresh_token c,
       conf_token_expires_at =
         (case token_expires_at c of
            None \<Rightarrow> None
          | Some e \<Rightarrow> Some (py_int (timestamp e)))\<rparr>,
      c)"

subsection \<open>The world outside the client\<close>

text \<open>
  What the client does to the outside is a trace of events, in order: a reading of the
  wall clock (\<^verbatim>\<open>datetime.now\<close>), a POST with its URL and JSON payload, a GET with its
  URL, query parameters and headers. The outside answers through an environment: the
  clock, the replies of the HTTP session and the MD5 digest, each reply chosen by the
  position of the event in the trace. A reply is an exception of the session, or an HTTP
  status together with what \<^verbatim>\<open>resp.json()\<close> gives (an exception or the decoded body).
  Fields of a JSON body are optional; a field that is present has the type of the
  vendor's contract.
\<close>

record login_payload =
  areaCode :: string
  phoneOrEmail :: string
  password_md5 :: string
  deviceId :: string

datatype event =
    ClockRead
  | HttpPost string login_payload
  | HttpGet string "(string \<times> int) list" "(string \<times> string) list"

datatype session_exn = SessionClientError | SessionOtherException

definition session_error :: "session_exn \<Rightarrow> error" where
  "session_error x = (case x of SessionClientError \<Rightarrow> ClientError | SessionOtherException \<Rightarrow> OtherException)"

datatype 'b response = Raises session_exn | Response int "session_exn + 'b"

record login_data =
  ld_token :: "string option"
  ld_refreshToken :: "string option"
  ld_tokenExpired :: "int option"

record login_body =
  lb_code :: "int option"
  lb_data :: "login_data option"
  lb_ts :: "int option"

record 'd api_body =
  ab_code :: "int option"
  ab_data :: "'d option"

record home =
  hid :: int
  homeName :: string

record ('dev, 'st) env =
  md5_hexdigest :: "string \<Rightarrow> string"
  clock :: "nat \<Rightarrow> datetime"
  post_login :: "nat \<Rightarrow> login_body response"
  get_homes :: "nat \<Rightarrow> home list api_body response"
  get_devices :: "nat \<Rightarrow> 'dev list api_body response"
  get_status :: "nat \<Rightarrow> 'st api_body response"

type_synonym 'a outcome = "(error + 'a) \<times> client \<times> event list"

subsection \<open>Token validity and login\<close>

definition token_valid :: "('dev, 'st) env \<Rightarrow> client \<Rightarrow> event list \<Rightarrow> bool \<times> event list" where
  "token_valid E c tr =
     (case token c of
        None \<Rightarrow> (False, tr)
      | Some t \<Rightarrow>
          if t = [] then (False, tr)
          else
            (case token_expires_at c of
               None \<Rightarrow> (False, tr)
             | Some e \<Rightarrow> (clock E (length tr) < e - timedelta_minutes 5, tr @ [ClockRead])))"

definition login :: "('dev, 'st) env \<Rightarrow> client \<Rightarrow> event list \<Rightarrow> unit outcome" where
  "login E c tr =
     (let url = base_url @ ''/auth/basic/app/login'';
          md5 = md5_hexdigest E (password c);
          device_id = md5_hexdigest E (email c @ area_code c);
          payload = \<lparr>areaCode = area_code c, phoneOrEmail = email c,
                     password_md5 = md5, deviceId = device_id\<rparr>;
          tr1 = tr @ [HttpPost url payload]
      in case post_login E (length tr) of
           Raises x \<Rightarrow> (Inl (session_error x), c, tr1)
         | Response status body \<Rightarrow>
             if status \<noteq> 200 then (Inl (HomGarApiError (LoginHttp status)), c, tr1)
             else
               (case body of
                  Inl x \<Rightarrow> (Inl (session_error x), c, tr1)
                | Inr data \<Rightarrow>
                    if lb_code data \<noteq> Some 0 then (Inl (HomGarApiError LoginFailed), c, tr1)
                    else
                      (case lb_data data of
                         None \<Rightarrow> (Inl (HomGarApiError LoginFailed), c, tr1)
                       | Some d \<Rightarrow>
                           (case ld_token d of
                              None \<Rightarrow> (Inl (KeyError ''token''), c, tr1)
                            | Some t \<Rightarrow>
                                (let c1 = c\<lparr>token := Some t, refresh_token := ld_refreshToken d\<rparr>;
                                     token_expired_secs =
                                       (case ld_tokenExpired d of None \<Rightarrow> 0 | Some s \<Rightarrow> s);
                                     ts_server = lb_ts data
                                 in case (case ts_server of
                                            None \<Rightarrow> (clock E (length tr1), tr1 @ [ClockRead])
                                          | Some ts \<Rightarrow>
                                              if ts \<noteq> 0 then (ts * 1000, tr1)
                                              else (clock E (length tr1), tr1 @ [ClockRead])) of
                                      (base, tr2) \<Rightarrow>
                                        (Inr (),
                                         c1\<lparr>token_expires_at :=
                                              Some (base + timedelta_seconds token_expired_secs)\<rparr>,
                                         tr2))))))"

definition ensure_logged_in :: "('dev, 'st) env \<Rightarrow> client \<Rightarrow> event list \<Rightarrow> unit outcome" where
  "ensure_logged_in E c tr =
     (case token_valid E c tr of
        (True, tr1) \<Rightarrow> (Inr (), c, tr1)
      | (False, tr1) \<Rightarrow> login E c tr1)"

definition auth_headers :: "client \<Rightarrow> error + (string \<times> string) list" where
  "auth_headers c =
     (case token c of
        None \<Rightarrow> Inl (HomGarApiError TokenNotAvailable)
      | Some t \<Rightarrow>
          if t = [] then Inl (HomGarApiError TokenNotAvailable)
          else Inr [(''auth'', t), (''lang'', ''en''), (''appCode'', ''1'')])"

subsection \<open>API calls\<close>

definition list_homes :: "('dev, 'st) env \<Rightarrow> client \<Rightarrow> event list \<Rightarrow> home list outcome" where
  "list_homes E c tr =
     (case ensure_logged_in E c tr of
        (Inl e, c1, tr1) \<Rightarrow> (Inl e, c1, tr1)
      | (Inr u, c1, tr1) \<Rightarrow>
          (let url = base_url @ ''/app/member/appHome/list''
           in case auth_headers c1 of
                Inl e \<Rightarrow> (Inl e, c1, tr1)
              | Inr headers \<Rightarrow>
                  ((case get_homes E (length tr1) of
                     Raises x \<Rightarrow> Inl (session_error x)
                   | Response status body \<Rightarrow>
                       if status \<noteq> 200 then Inl (HomGarApiError (CallHttp status))
                       else
                         (case body of
                            Inl x \<Rightarrow> Inl (session_error x)
                          | Inr data \<Rightarrow>
                              if ab_code data \<noteq> Some 0 then Inl (HomGarApiError CallFailed)
                              else Inr (case ab_data data of None \<Rightarrow> [] | Some d \<Rightarrow> d))),
                   c1,
                   tr1 @ [HttpGet url [] headers])))"

definition get_devices_by_hid ::
  "('dev, 'st) env \<Rightarrow> int \<Rightarrow> client \<Rightarrow> event list \<Rightarrow> 'dev list outcome" where
  "get_devices_by_hid E h c tr =
     (case ensure_logged_in E c tr of
        (Inl e, c1, tr1) \<Rightarrow> (Inl e, c1, tr1)
      | (Inr u, c1, tr1) \<Rightarrow>
          (let url = base_url @ ''/app/device/getDeviceByHid''
           in case auth_headers c1 of
                Inl e \<Rightarrow> (Inl e, c1, tr1)
              | Inr headers \<Rightarrow>
                  ((case get_devices E (length tr1) of
                     Raises x \<Rightarrow> Inl (session_error x)
                   | Response status body \<Rightarrow>
                       if status \<noteq> 200 then Inl (HomGarApiError (CallHttp status))
                       else
                         (case body of
                            Inl x \<Rightarrow> Inl (session_error x)
                          | Inr data \<Rightarrow>
                              if ab_code data \<noteq> Some 0 then Inl (HomGarApiError CallFailed)
                              else Inr (case ab_data data of None \<Rightarrow> [] | Some d \<Rightarrow> d))),
                   c1,
                   tr1 @ [HttpGet url [(''hid'', h)] headers])))"

text \<open>
  The status object is of a type \<open>'st\<close> the client never looks into; \<open>empty_status\<close> is
  the empty dictionary the source returns when the body has no \<^verbatim>\<open>data\<close>.
\<close>

definition get_device_status ::
  "('dev, 'st) env \<Rightarrow> 'st \<Rightarrow> int \<Rightarrow> client \<Rightarrow> event list \<Rightarrow> 'st outcome" where
  "get_device_status E empty_status m c tr =
     (case ensure_logged_in E c tr of
        (Inl e, c1, tr1) \<Rightarrow> (Inl e, c1, tr1)
      | (Inr u, c1, tr1) \<Rightarrow>
          (let url = base_url @ ''/app/device/getDeviceStatus''
           in case auth_headers c1 of
                Inl e \<Rightarrow> (Inl e, c1, tr1)
              | Inr headers \<Rightarrow>
                  ((case get_status E (length tr1) of
                     Raises x \<Rightarrow> Inl (session_error x)
                   | Response status body \<Rightarrow>
                       if status \<noteq> 200 then Inl (HomGarApiError (CallHttp status))
                       else
                         (case body of
                            Inl x \<Rightarrow> Inl (session_error x)
                          | Inr data \<Rightarrow>
                              if ab_code data \<noteq> Some 0 then Inl (HomGarApiError CallFailed)
                              else Inr (case ab_data data of None \<Rightarrow> empty_status | Some d \<Rightarrow> d))),
                   c1,
                   tr1 @ [HttpGet url [(''mid'', m)] headers])))"

section \<open>Onboarding wizard\<close>

record user_input =
  ui_area_code :: string
  ui_email :: string
  ui_password :: string

text \<open>
  The data of a configuration entry: the token fields, extended by the credentials and
  the selected home ids.
\<close>

record config_data = token_data +
  conf_area_code :: string
  conf_email :: string
  conf_password :: string
  conf_hids :: "int list"

record config_entry =
  entry_unique_id :: "string option"
  entry_title :: string
  entry_data :: config_data

datatype schema = UserSchema | HomesSchema "(string \<times> string) list"

datatype flow_result =
    ShowForm string schema "(string \<times> string) list"
  | CreateEntry string config_data

text \<open>
  The state of one flow: the uniqueness key the host keeps for it, and the attributes
  the first step stores for the second (unset until then).
\<close>

record flow =
  unique_id :: "string option"
  flow_area_code :: "string option"
  flow_email :: "string option"
  flow_password :: "string option"
  flow_homes :: "home list option"
  flow_client :: "client option"

text \<open>
  Modelled from the spec: the host platform's \<^verbatim>\<open>async_set_unique_id\<close> and
  \<^verbatim>\<open>_abort_if_unique_id_configured\<close> are not part of the repository. The first records
  the uniqueness key of the flow; the second aborts the flow, with the reason
  \<^verbatim>\<open>already_configured\<close>, when a configuration entry with that key exists.
\<close>

definition async_set_unique_id :: "string \<Rightarrow> flow \<Rightarrow> flow" where
  "async_set_unique_id uid fl = fl\<lparr>unique_id := Some uid\<rparr>"

definition abort_if_unique_id_configured :: "config_entry list \<Rightarrow> flow \<Rightarrow> error + unit" where
  "abort_if_unique_id_configured entries fl =
     (case unique_id fl of
        None \<Rightarrow> Inr ()
      | Some uid \<Rightarrow>
          if Some uid \<in> set (map entry_unique_id entries)
          then Inl (AbortFlow ''already_configured'')
          else Inr ())"

text \<open>
  A dictionary built by a comprehension: a later pair with a key already present
  replaces the value and keeps the place of the key.
\<close>

definition dict_of :: "('k \<times> 'v) list \<Rightarrow> ('k \<times> 'v) list" where
  "dict_of kvs = fold (\<lambda>(k, v) d. AList.update k v d) kvs []"

text \<open>
  The input of the second step is \<open>None\<close>, or a dictionary of which the step reads
  \<^verbatim>\<open>user_input.get(CONF_HIDS)\<close>.
\<close>

definition async_step_select_homes ::
  "string option option \<Rightarrow> flow \<Rightarrow> event list \<Rightarrow> (error + flow_result) \<times> flow \<times> event list" where
  "async_step_select_homes user_input fl tr =
     (case flow_homes fl of
        None \<Rightarrow> (Inl (AttributeError ''_homes''), fl, tr)
      | Some homes \<Rightarrow>
          (let home_options = dict_of (map (\<lambda>h. (str_int (hid h), homeName h)) homes);
               form = (\<lambda>errors. (Inr (ShowForm ''select_homes'' (HomesSchema home_options) errors), fl, tr))
           in case user_input of
                None \<Rightarrow> form []
              | Some None \<Rightarrow> form [(''base'', ''select_at_least_one'')]
              | Some (Some selected) \<Rightarrow>
                  if selected = [] then form [(''base'', ''select_at_least_one'')]
                  else
                    (case py_int_str selected 10 of
                       None \<Rightarrow> (Inl (ValueError InvalidLiteral), fl, tr)
                     | Some h \<Rightarrow>
                         (case flow_client fl of
                            None \<Rightarrow> (Inl (AttributeError ''_client''), fl, tr)
                          | Some cl \<Rightarrow>
                              (case flow_area_code fl of
                                 None \<Rightarrow> (Inl (AttributeError ''_area_code''), fl, tr)
                               | Some area \<Rightarrow>
                                   (case flow_email fl of
                                      None \<Rightarrow> (Inl (AttributeError ''_email''), fl, tr)
                                    | Some mail \<Rightarrow>
                                        (case flow_password fl of
                                           None \<Rightarrow> (Inl (AttributeError ''_password''), fl, tr)
                                         | Some pw \<Rightarrow>
                                             (case export_tokens cl of
                                                (token_data, cl1) \<Rightarrow>
                                                  (let hids = [h];
                                                       data =
                                                         \<lparr>conf_token = conf_token token_data,
                                                          conf_refresh_token = conf_refresh_token token_data,
                                                          conf_token_expires_at = conf_token_expires_at token_data,
                                                          conf_area_code = area, conf_email = mail,
                                                          conf_password = pw, conf_hids = hids\<rparr>
                                                   in (Inr (CreateEntry (''HomGar ('' @ mail @ '')'') data),
                                                       fl\<lparr>flow_client := Some cl1\<rparr>, tr))))))))))"

definition async_step_user ::
  "('dev, 'st) env \<Rightarrow> config_entry list \<Rightarrow> user_input option \<Rightarrow> flow \<Rightarrow> event list
     \<Rightarrow> (error + flow_result) \<times> flow \<times> event list" where
  "async_step_user E entries user_input fl tr =
     (case user_input of
        None \<Rightarrow> (Inr (ShowForm ''user'' UserSchema []), fl, tr)
      | Some ui \<Rightarrow>
          (let area = ui_area_code ui;
               mail = ui_email ui;
               pw = ui_password ui;
               fl1 = async_set_unique_id (DOMAIN @ ''_'' @ mail) fl
           in case abort_if_unique_id_configured entries fl1 of
                Inl e \<Rightarrow> (Inl e, fl1, tr)
              | Inr u \<Rightarrow>
                  (let cl = init area mail pw;
                       attempt =
                         (case ensure_logged_in E cl tr of
                            (Inl e, c1, tr1) \<Rightarrow> (Inl e, c1, tr1)
                          | (Inr u1, c1, tr1) \<Rightarrow> list_homes E c1 tr1)
                   in case attempt of
                        (Inl e, c2, tr2) \<Rightarrow>
                          (case e of
                             HomGarApiError x \<Rightarrow>
                               (Inr (ShowForm ''user'' UserSchema [(''base'', ''auth_failed'')]), fl1, tr2)
                           | ClientError \<Rightarrow>
                               (Inr (ShowForm ''user'' UserSchema [(''base'', ''cannot_connect'')]), fl1, tr2)
                           | _ \<Rightarrow> (Inl e, fl1, tr2))
                      | (Inr homes, c2, tr2) \<Rightarrow>
                          if homes = []
                          then (Inr (ShowForm ''user'' UserSchema [(''base'', ''no_homes'')]), fl1, tr2)
                          else
                            async_step_select_homes None
                              (fl1\<lparr>flow_area_code := Some area, flow_email := Some mail,
                                    flow_password := Some pw, flow_homes := Some homes,
                                    flow_client := Some c2\<rparr>)
                              tr2)))"

section \<open>Plugin lifecycle\<close>

text \<open>
  The client that \<^verbatim>\<open>async_setup_entry\<close> builds for a configuration entry: a new client
  from the stored credentials, then the stored tokens restored into it.
\<close>

definition async_setup_entry_client :: "config_entry \<Rightarrow> client" where
  "async_setup_entry_client entry =
     (let area = conf_area_code (entry_data entry);
          mail = conf_email (entry_data entry);
          pw = conf_password (entry_data entry);
          cl = init area mail pw
      in restore_tokens (entry_data entry) cl)"

section \<open>Observing a trace\<close>

text \<open>
  A login is performed when the trace gains a POST to the login URL; \<open>logins\<close> counts
  them. \<open>still_world\<close> is the simplest environment: the clock stands at one instant, the
  session gives the same reply to every login and to every listing of homes and refuses
  the two other calls, and the digest is the identity.
\<close>

fun is_login_post :: "event \<Rightarrow> bool" where
  "is_login_post (HttpPost url p) = (url = base_url @ ''/auth/basic/app/login'')"
| "is_login_post ClockRead = False"
| "is_login_post (HttpGet url q h) = False"

definition logins :: "event list \<Rightarrow> nat" where
  "logins tr = length (filter is_login_post tr)"

text \<open>
  \<open>gets\<close> are the GET requests of a trace, in order. \<open>reply_token\<close> is the token in the
  body of the login reply at a position of the trace, when the reply has one.
  \<open>call_after_login\<close> says of the outcome of an authenticated call, made from a client
  state and a trace, that the call logged in first: when the login raises, the call
  ends with that exception in the state and trace the login left, with no GET; when
  the login returns, the client holds the token of the login's reply, and the call
  either raises for an empty token with no GET, or sends one GET, after the events of
  the login, whose \<^verbatim>\<open>auth\<close> header is that token.
\<close>

fun is_get :: "event \<Rightarrow> bool" where
  "is_get (HttpGet url q h) = True"
| "is_get ClockRead = False"
| "is_get (HttpPost url p) = False"

definition gets :: "event list \<Rightarrow> event list" where
  "gets tr = filter is_get tr"

definition reply_token :: "('dev, 'st) env \<Rightarrow> nat \<Rightarrow> string option" where
  "reply_token E n =
     (case post_login E n of
        Raises x \<Rightarrow> None
      | Response status body \<Rightarrow>
          (case body of
             Inl x \<Rightarrow> None
           | Inr data \<Rightarrow> (case lb_data data of None \<Rightarrow> None | Some d \<Rightarrow> ld_token d)))"

definition call_after_login ::
  "('dev, 'st) env \<Rightarrow> client \<Rightarrow> event list \<Rightarrow> string \<Rightarrow> (string \<times> int) list
     \<Rightarrow> (error + 'a) \<times> client \<times> event list \<Rightarrow> bool" where
  "call_after_login E c tr url params out =
     (case login E c tr of
        (Inl err, c1, tr1) \<Rightarrow> out = (Inl err, c1, tr1) \<and> gets tr1 = gets tr
      | (Inr u, c1, tr1) \<Rightarrow>
          (case reply_token E (length tr) of
             None \<Rightarrow> False
           | Some t \<Rightarrow>
               token c1 = Some t \<and> gets tr1 = gets tr \<and> fst (snd out) = c1
               \<and> (if t = [] then out = (Inl (HomGarApiError TokenNotAvailable), c1, tr1)
                   else snd (snd out) =
                          tr1 @ [HttpGet url params
                                   [(''auth'', t), (''lang'', ''en''), (''appCode'', ''1'')]])))"

definition still_world ::
  "datetime \<Rightarrow> login_body response \<Rightarrow> home list api_body response \<Rightarrow> (unit, unit) env" where
  "still_world now lr hr =
     \<lparr>md5_hexdigest = (\<lambda>s. s), clock = (\<lambda>n. now), post_login = (\<lambda>n. lr),
      get_homes = (\<lambda>n. hr), get_devices = (\<lambda>n. Raises SessionClientError),
      get_status = (\<lambda>n. Raises SessionClientError)\<rparr>"

section \<open>Facts about the decoders\<close>

declare str_nat.simps [simp del]

lemmas int_str_defs =
  py_int_str_def strip_sign_def strip_prefix_def is_prefix_letter_def digit_def
  digit_value_def py_isspace_def

lemma hex_pairs_length:
  "hex_pairs s = Inr out \<Longrightarrow> length out = (length s + 1) div 2"
  by (induction s arbitrary: out rule: hex_pairs.induct) (auto split: option.splits sum.splits)

lemma parse_homgar_payload_length:
  "parse_homgar_payload raw = Inr out \<Longrightarrow> 2 * length out = length (drop 3 raw)"
  by (auto simp: parse_homgar_payload_def Let_def dest!: hex_pairs_length split: if_splits)

text \<open>
  What the framing step does guarantee about an entry: a slice of two characters is
  converted to a number from -15 to 255 (a sign leaves room for one digit).
\<close>

lemma digit_bounds: "digit 16 c = Some d \<Longrightarrow> 0 \<le> d \<and> d \<le> 15"
  by (auto simp: digit_def digit_value_def Let_def split: option.splits if_splits)

lemma py_int_str_one: "py_int_str [a] 16 = Some v \<Longrightarrow> 0 \<le> v \<and> v \<le> 15"
  by (auto simp: py_int_str_def strip_sign_def strip_prefix_def dest!: digit_bounds
      split: option.splits if_splits list.splits prod.splits)

lemma py_int_str_two: "py_int_str [a, b] 16 = Some v \<Longrightarrow> - 15 \<le> v \<and> v \<le> 255"
  by (auto simp: py_int_str_def strip_sign_def strip_prefix_def dest!: digit_bounds
      split: option.splits if_splits list.splits prod.splits)

lemma hex_pairs_range:
  "hex_pairs s = Inr out \<Longrightarrow> list_all (\<lambda>v. - 15 \<le> v \<and> v \<le> 255) out"
  by (induction s arbitrary: out rule: hex_pairs.induct)
     (auto split: option.splits sum.splits dest: py_int_str_one py_int_str_two)

lemma parse_homgar_payload_range:
  "parse_homgar_payload raw = Inr out \<Longrightarrow> list_all (\<lambda>v. - 15 \<le> v \<and> v \<le> 255) out"
  by (auto simp: parse_homgar_payload_def Let_def dest: hex_pairs_range split: if_splits)

lemma or_push_bit_8:
  fixes lo hi :: int
  assumes "0 \<le> lo" "lo < 256"
  shows "lo OR push_bit 8 hi = lo + 256 * hi"
proof -
  have lo: "take_bit 8 lo = lo"
    using assms by (simp add: take_bit_int_eq_self)
  have "\<not> bit lo n \<or> \<not> bit (push_bit 8 hi) n" for n
  proof (cases "n < 8")
    case True
    then show ?thesis by (simp add: bit_push_bit_iff)
  next
    case False
    have "bit lo n = bit (take_bit 8 lo) n" by (simp add: lo)
    with False show ?thesis by (simp add: bit_take_bit_iff)
  qed
  then have "lo + push_bit 8 hi = lo OR push_bit 8 hi"
    by (rule disjunctive_add)
  then show ?thesis by (simp add: push_bit_eq_mult)
qed

lemma parse_example_simple:
  "parse_homgar_payload ''10#E10500DC01882A0001''
     = Inr [0xE1, 0x05, 0x00, 0xDC, 0x01, 0x88, 0x2A, 0x00, 0x01]"
  by (simp add: parse_homgar_payload_def int_str_defs)

lemma parse_example_wrong_tag:
  "parse_homgar_payload ''10#E10500DC01872A0001''
     = Inr [0xE1, 0x05, 0x00, 0xDC, 0x01, 0x87, 0x2A, 0x00, 0x01]"
  by (simp add: parse_homgar_payload_def int_str_defs)

lemma parse_example_full:
  "parse_homgar_payload ''10#E10500DC0185F002882AC6DC0500FF0F''
     = Inr [0xE1, 0x05, 0x00, 0xDC, 0x01, 0x85, 0xF0, 0x02, 0x88, 0x2A, 0xC6, 0xDC, 0x05,
            0x00, 0xFF, 0x0F]"
  by (simp add: parse_homgar_payload_def int_str_defs)

text \<open>
  C3. A payload that does not start with \<^verbatim>\<open>10#\<close> makes each of the three decoders
  fail with \<open>ValueError\<close> (raised by the prefix check), and so does a payload that starts
  with \<^verbatim>\<open>10#\<close> and whose remainder has odd length (raised by the length check): none
  of them returns a reading.
\<close>

theorem decoders_reject_bad_framing:
  "(take 3 raw \<noteq> ''10#'' \<longrightarrow>
      decode_moisture_simple raw = Inl (ValueError UnexpectedPayloadFormat)
    \<and> decode_moisture_full raw = Inl (ValueError UnexpectedPayloadFormat)
    \<and> decode_rain raw = Inl (ValueError UnexpectedPayloadFormat))
   \<and> (take 3 raw = ''10#'' \<and> odd (length (drop 3 raw)) \<longrightarrow>
      decode_moisture_simple raw = Inl (ValueError HexLengthNotEven)
    \<and> decode_moisture_full raw = Inl (ValueError HexLengthNotEven)
    \<and> decode_rain raw = Inl (ValueError HexLengthNotEven))"
  by (auto simp: decode_moisture_simple_def decode_moisture_full_def decode_rain_def
      parse_homgar_payload_def Let_def odd_iff_mod_2_eq_one)

theorem decoders_reject_bad_framing_witness:
  "decode_moisture_simple ''11#E105'' = Inl (ValueError UnexpectedPayloadFormat)
   \<and> decode_moisture_full ''11#E105'' = Inl (ValueError UnexpectedPayloadFormat)
   \<and> decode_rain ''11#E105'' = Inl (ValueError UnexpectedPayloadFormat)
   \<and> decode_moisture_simple ''10#E10'' = Inl (ValueError HexLengthNotEven)
   \<and> decode_moisture_full ''10#E10'' = Inl (ValueError HexLengthNotEven)
   \<and> decode_rain ''10#E10'' = Inl (ValueError HexLengthNotEven)"
  using decoders_reject_bad_framing [of "''11#E105''"]
    decoders_reject_bad_framing [of "''10#E10''"]
  by simp

text \<open>
  C4. The framing step, evaluated on the payload \<^verbatim>\<open>10#-1\<close>: the remainder is the one
  slice \<^verbatim>\<open>-1\<close>, which \<^verbatim>\<open>int(.., 16)\<close> reads as a signed number, so the returned sequence
  holds the entry \<open>-1\<close>, outside the range 0 to 255.
\<close>

theorem parse_homgar_payload_negative_entry:
  "parse_homgar_payload ''10#-1'' = Inr [- 1]"
  by (simp add: parse_homgar_payload_def int_str_defs)

text \<open>
  C5. When the framed bytes are E1 05 00 DC 01 88 2A 00 01, the moisture-simple decoder
  returns RSSI 5, moisture 42 and battery/status code 1 (byte 7 shifted left by 8, or-ed
  with byte 8); when the payload frames to at least 9 bytes and byte 5 is not 0x88, the
  decoder fails with \<open>ValueError\<close>, raised by the check of that marker.
\<close>

theorem decode_moisture_simple_example_and_tag:
  "(parse_homgar_payload raw = Inr [0xE1, 0x05, 0x00, 0xDC, 0x01, 0x88, 0x2A, 0x00, 0x01] \<longrightarrow>
      decode_moisture_simple raw =
        Inr \<lparr>ms_type = ''moisture_simple'', ms_rssi_dbm = 5, ms_moisture_percent = 42,
             ms_battery_status_code = 1,
             ms_raw_bytes = [0xE1, 0x05, 0x00, 0xDC, 0x01, 0x88, 0x2A, 0x00, 0x01]\<rparr>)
   \<and> (parse_homgar_payload raw = Inr b \<and> 9 \<le> length b \<and> b ! 5 \<noteq> 0x88 \<longrightarrow>
      decode_moisture_simple raw = Inl (ValueError (MissingMarker 5)))"
  by (auto simp: decode_moisture_simple_def Let_def)

theorem decode_moisture_simple_example_and_tag_witness:
  "decode_moisture_simple ''10#E10500DC01882A0001'' =
     Inr \<lparr>ms_type = ''moisture_simple'', ms_rssi_dbm = 5, ms_moisture_percent = 42,
          ms_battery_status_code = 1,
          ms_raw_bytes = [0xE1, 0x05, 0x00, 0xDC, 0x01, 0x88, 0x2A, 0x00, 0x01]\<rparr>
   \<and> decode_moisture_simple ''10#E10500DC01872A0001'' = Inl (ValueError (MissingMarker 5))"
  using decode_moisture_simple_example_and_tag [of "''10#E10500DC01882A0001''"]
    decode_moisture_simple_example_and_tag
      [of "''10#E10500DC01872A0001''" "[0xE1, 0x05, 0x00, 0xDC, 0x01, 0x87, 0x2A, 0x00, 0x01]"]
  by (simp add: parse_example_simple parse_example_wrong_tag)

text \<open>
  C6. Whenever the moisture-full decoder returns a reading, the reported Celsius
  temperature is \<open>(raw / 10 - 32) / 1.8\<close> for the raw value read by \<open>le16\<close> at bytes 6
  and 7, and the reported illuminance is the raw value read by \<open>le16\<close> at bytes 11 and
  12, divided by 10; the read is byte + 256 * next byte when the low byte lies in 0 to
  255. Raw temperature 752 converts to 24 degrees, raw illuminance 1500 to 150 lux.
  (Over the reals: the rounding of floats is not part of the statement.)
\<close>

theorem decode_moisture_full_conversions:
  "(decode_moisture_full raw = Inr r \<longrightarrow>
      (\<exists>b. parse_homgar_payload raw = Inr b \<and> 16 \<le> length b
         \<and> mf_temperature_f10 r = le16 b 6
         \<and> mf_temperature_c r = (real_of_int (le16 b 6) / 10 - 32) / 1.8
         \<and> mf_illuminance_raw10 r = le16 b 11
         \<and> mf_illuminance_lux r = real_of_int (le16 b 11) / 10
         \<and> (0 \<le> b ! 6 \<and> b ! 6 < 256 \<longrightarrow> le16 b 6 = b ! 6 + 256 * b ! 7)
         \<and> (0 \<le> b ! 11 \<and> b ! 11 < 256 \<longrightarrow> le16 b 11 = b ! 11 + 256 * b ! 12)))
   \<and> f10_to_c 752 = 24 \<and> real_of_int 1500 / 10 = 150"
  by (auto simp: decode_moisture_full_def Let_def f10_to_c_def le16_def or_push_bit_8
      split: sum.splits if_splits)

theorem decode_moisture_full_conversions_witness:
  "\<exists>r. decode_moisture_full ''10#E10500DC0185F002882AC6DC0500FF0F'' = Inr r
     \<and> mf_temperature_f10 r = 752 \<and> mf_temperature_c r = 24
     \<and> mf_illuminance_raw10 r = 1500 \<and> mf_illuminance_lux r = 150"
proof -
  let ?raw = "''10#E10500DC0185F002882AC6DC0500FF0F''"
  obtain r where r: "decode_moisture_full ?raw = Inr r"
    by (simp add: decode_moisture_full_def parse_example_full Let_def)
  from decode_moisture_full_conversions [of ?raw r] r
  obtain b where b: "parse_homgar_payload ?raw = Inr b"
    and t: "mf_temperature_f10 r = le16 b 6"
           "mf_temperature_c r = (real_of_int (le16 b 6) / 10 - 32) / 1.8"
    and l: "mf_illuminance_raw10 r = le16 b 11"
           "mf_illuminance_lux r = real_of_int (le16 b 11) / 10"
    by blast
  from b have "b = [0xE1, 0x05, 0x00, 0xDC, 0x01, 0x85, 0xF0, 0x02, 0x88, 0x2A, 0xC6, 0xDC,
      0x05, 0x00, 0xFF, 0x0F]"
    by (simp add: parse_example_full)
  then have "le16 b 6 = 752" "le16 b 11 = 1500"
    by (simp_all add: le16_def)
  with r t l show ?thesis by simp
qed

section \<open>Facts about the client\<close>

lemma logins_append [simp]: "logins (xs @ ys) = logins xs + logins ys"
  by (simp add: logins_def)

lemma login_logins: "logins (snd (snd (login E c tr))) = Suc (logins tr)"
  by (auto simp: login_def Let_def logins_def split: response.splits sum.splits option.splits)

text \<open>
  C1. For a client that holds a token (the attribute is neither \<^verbatim>\<open>None\<close> nor the empty
  string, the test the source applies) and an expiry instant, \<open>ensure_logged_in\<close> reads
  the clock once and returns with no login exactly when that instant is strictly before
  the expiry minus 5 minutes; otherwise it runs \<open>login\<close>. With the expiry at the current
  instant plus 5 minutes, or earlier, it logs in; with the expiry at the current instant
  plus 5 minutes and 1 second it does not.
\<close>

theorem ensure_logged_in_margin:
  assumes "token c = Some t" and "t \<noteq> []" and "token_expires_at c = Some e"
  shows "(clock E (length tr) < e - timedelta_minutes 5 \<longrightarrow>
            ensure_logged_in E c tr = (Inr (), c, tr @ [ClockRead]))
       \<and> (\<not> clock E (length tr) < e - timedelta_minutes 5 \<longrightarrow>
            ensure_logged_in E c tr = login E c (tr @ [ClockRead]))
       \<and> ((logins (snd (snd (ensure_logged_in E c tr))) = logins tr)
            = (clock E (length tr) < e - timedelta_minutes 5))
       \<and> (e \<le> clock E (length tr) + timedelta_minutes 5 \<longrightarrow>
            logins (snd (snd (ensure_logged_in E c tr))) = Suc (logins tr))
       \<and> (e = clock E (length tr) + timedelta_minutes 5 + timedelta_seconds 1 \<longrightarrow>
            logins (snd (snd (ensure_logged_in E c tr))) = logins tr)"
proof -
  let ?now = "clock E (length tr)"
  have tv: "token_valid E c tr = (?now < e - timedelta_minutes 5, tr @ [ClockRead])"
    using assms by (simp add: token_valid_def)
  have yes: "ensure_logged_in E c tr = (Inr (), c, tr @ [ClockRead])"
    if "?now < e - timedelta_minutes 5"
    using that tv by (simp add: ensure_logged_in_def)
  have no: "ensure_logged_in E c tr = login E c (tr @ [ClockRead])"
    if "\<not> ?now < e - timedelta_minutes 5"
    using that tv by (simp add: ensure_logged_in_def)
  have cnt_yes: "logins (snd (snd (ensure_logged_in E c tr))) = logins tr"
    if "?now < e - timedelta_minutes 5"
    using yes [OF that] by (simp add: logins_def)
  have cnt_no: "logins (snd (snd (ensure_logged_in E c tr))) = Suc (logins tr)"
    if "\<not> ?now < e - timedelta_minutes 5"
    using no [OF that] by (simp add: login_logins) (simp add: logins_def)
  show ?thesis
    using yes no cnt_yes cnt_no
    by (cases "?now < e - timedelta_minutes 5") (auto simp: timedelta_seconds_def)
qed


theorem ensure_logged_in_margin_witness:
  "ensure_logged_in (still_world 1700000000000000 (Raises SessionClientError) (Raises SessionClientError))
     \<lparr>area_code = ''27'', email = ''a@b.c'', password = ''pw'', token = Some ''tok'',
      refresh_token = None, token_expires_at = Some 1700000301000000\<rparr> []
   = (Inr (),
      \<lparr>area_code = ''27'', email = ''a@b.c'', password = ''pw'', token = Some ''tok'',
       refresh_token = None, token_expires_at = Some 1700000301000000\<rparr>,
      [ClockRead])
   \<and> logins (snd (snd (ensure_logged_in
        (still_world 1700000000000000 (Raises SessionClientError) (Raises SessionClientError))
        \<lparr>area_code = ''27'', email = ''a@b.c'', password = ''pw'', token = Some ''tok'',
         refresh_token = None, token_expires_at = Some 1700000300000000\<rparr> []))) = Suc 0"
proof -
  let ?E = "still_world 1700000000000000 (Raises SessionClientError) (Raises SessionClientError)"
  let ?c1 = "\<lparr>area_code = ''27'', email = ''a@b.c'', password = ''pw'', token = Some ''tok'',
      refresh_token = None, token_expires_at = Some (1700000301000000::int)\<rparr>"
  let ?c2 = "\<lparr>area_code = ''27'', email = ''a@b.c'', password = ''pw'', token = Some ''tok'',
      refresh_token = None, token_expires_at = Some (1700000300000000::int)\<rparr>"
  have t1: "token ?c1 = Some ''tok''" and t2: "token ?c2 = Some ''tok''"
    and n: "''tok'' \<noteq> []"
    and e1: "token_expires_at ?c1 = Some 1700000301000000"
    and e2: "token_expires_at ?c2 = Some 1700000300000000"
    by simp_all
  have z: "logins [] = 0"
    by (simp add: logins_def)
  have c1: "clock ?E (length []) < 1700000301000000 - timedelta_minutes 5"
    and c2: "1700000300000000 \<le> clock ?E (length []) + timedelta_minutes 5"
    by (simp_all add: still_world_def timedelta_minutes_def)
  from ensure_logged_in_margin [OF t1 n e1, of ?E "[]"] c1
  have a: "ensure_logged_in ?E ?c1 [] = (Inr (), ?c1, [] @ [ClockRead])"
    by blast
  from ensure_logged_in_margin [OF t2 n e2, of ?E "[]"] c2
  have b: "logins (snd (snd (ensure_logged_in ?E ?c2 []))) = Suc (logins [])"
    by blast
  from a b z show ?thesis
    by simp
qed

lemma py_int_timestamp:
  "py_int (timestamp e) = (if 0 \<le> e then e div 1000000 else - ((- e) div 1000000))"
proof -
  have fl: "\<lfloor>real_of_int k / 1000000\<rfloor> = k div 1000000" for k :: int
    using floor_divide_of_int_eq [of k 1000000, where ?'a = real] by simp
  have "\<lceil>real_of_int e / 1000000\<rceil> = - \<lfloor>real_of_int (- e) / 1000000\<rfloor>"
    by (simp add: ceiling_def)
  also have "\<dots> = - ((- e) div 1000000)"
    by (simp only: fl)
  finally have ce: "\<lceil>real_of_int e / 1000000\<rceil> = - ((- e) div 1000000)" .
  show ?thesis
    by (simp add: py_int_def timestamp_def fl ce)
qed

lemma whole_second_roundtrip:
  assumes "e mod 1000000 = 0"
  shows "fromtimestamp (py_int (timestamp e)) = e"
proof -
  from assms have d: "1000000 dvd e"
    by (rule mod_0_imp_dvd)
  then have a: "e div 1000000 * 1000000 = e"
    by (rule dvd_div_mult_self)
  from d have "1000000 dvd - e"
    by simp
  then have b: "(- e) div 1000000 * 1000000 = - e"
    by (rule dvd_div_mult_self)
  show ?thesis
  proof (cases "0 \<le> e")
    case True
    with a show ?thesis by (simp add: py_int_timestamp fromtimestamp_def)
  next
    case False
    with b show ?thesis by (simp add: py_int_timestamp fromtimestamp_def)
  qed
qed

text \<open>
  C2, as amended. For every client token state whose expiry instant is absent or a whole
  number of seconds, and every reading of the clock, the client obtained by restoring
  the exported token state into a new client takes the same validity decision as the
  original client (and reads the clock in the same cases).
\<close>

theorem export_restore_decision:
  assumes "case token_expires_at c of None \<Rightarrow> True | Some e \<Rightarrow> e mod 1000000 = 0"
  shows "token_valid E (restore_tokens (fst (export_tokens c)) (init a m p)) tr = token_valid E c tr"
  using assms
  by (auto simp: token_valid_def restore_tokens_def export_tokens_def init_def Let_def
      whole_second_roundtrip split: option.splits)

theorem export_restore_decision_witness:
  "token_valid (still_world 1699999000000000 (Raises SessionClientError) (Raises SessionClientError))
     (restore_tokens
        (fst (export_tokens
           \<lparr>area_code = ''27'', email = ''a@b.c'', password = ''pw'', token = Some ''tok'',
            refresh_token = None, token_expires_at = Some 1700000000000000\<rparr>))
        (init ''27'' ''a@b.c'' ''pw'')) []
   = (True, [ClockRead])"
proof -
  let ?c = "\<lparr>area_code = ''27'', email = ''a@b.c'', password = ''pw'', token = Some ''tok'',
            refresh_token = None, token_expires_at = Some (1700000000000000::int)\<rparr>"
  have h: "case token_expires_at ?c of None \<Rightarrow> True | Some e \<Rightarrow> e mod 1000000 = 0"
    by simp
  show ?thesis
    using export_restore_decision [OF h, of "still_world 1699999000000000 (Raises SessionClientError) (Raises SessionClientError)" "''27''" "''a@b.c''" "''pw''" "[]"]
    by (simp add: token_valid_def still_world_def timedelta_minutes_def)
qed

text \<open>
  C2, as stated, fails: an expiry of 1700000000.5 seconds is exported as 1700000000; at
  the instant 1699999700.2 the original client finds its token valid and the restored
  client does not.
\<close>

theorem export_restore_decision_counterexample:
  "fst (token_valid (still_world 1699999700200000 (Raises SessionClientError) (Raises SessionClientError))
         \<lparr>area_code = ''27'', email = ''a@b.c'', password = ''pw'', token = Some ''tok'',
          refresh_token = None, token_expires_at = Some 1700000000500000\<rparr> [])
   \<and> \<not> fst (token_valid (still_world 1699999700200000 (Raises SessionClientError) (Raises SessionClientError))
         (restore_tokens
            (fst (export_tokens
               \<lparr>area_code = ''27'', email = ''a@b.c'', password = ''pw'', token = Some ''tok'',
                refresh_token = None, token_expires_at = Some 1700000000500000\<rparr>))
            (init ''27'' ''a@b.c'' ''pw'')) [])"
  by (simp add: token_valid_def restore_tokens_def export_tokens_def init_def still_world_def
      py_int_timestamp fromtimestamp_def timedelta_minutes_def)




lemma login_first_event:
  "\<exists>p. take (Suc (length tr)) (snd (snd (login E c tr))) = tr @ [HttpPost (base_url @ ''/auth/basic/app/login'') p]"
  by (auto simp: login_def Let_def split: response.splits sum.splits option.splits)

lemma list_homes_trace_extends:
  "\<exists>rest. snd (snd (list_homes E c tr)) = snd (snd (ensure_logged_in E c tr)) @ rest"
  by (auto simp: list_homes_def Let_def split: prod.splits sum.splits)

lemma get_devices_by_hid_trace_extends:
  "\<exists>rest. snd (snd (get_devices_by_hid E h c tr)) = snd (snd (ensure_logged_in E c tr)) @ rest"
  by (auto simp: get_devices_by_hid_def Let_def split: prod.splits sum.splits)

lemma get_device_status_trace_extends:
  "\<exists>rest. snd (snd (get_device_status E d m c tr)) = snd (snd (ensure_logged_in E c tr)) @ rest"
  by (auto simp: get_device_status_def Let_def split: prod.splits sum.splits)

lemma unset_means_login:
  assumes "token c = None \<or> token_expires_at c = None"
  shows "token_valid E c tr = (False, tr)" and "ensure_logged_in E c tr = login E c tr"
  using assms by (auto simp: token_valid_def ensure_logged_in_def split: option.splits)

lemma first_event_extends:
  assumes "take (Suc (length tr)) xs = tr @ [ev]"
  shows "take (Suc (length tr)) (xs @ rest) = tr @ [ev]"
proof -
  from assms have "Suc (length tr) \<le> length xs"
    by (metis length_append_singleton length_take min.cobounded1)
  then show ?thesis using assms by simp
qed

lemma setup_entry_without_expiry_logs_in:
  assumes "conf_token_expires_at (entry_data entry) = None"
  shows "ensure_logged_in E (async_setup_entry_client entry) tr
           = login E (async_setup_entry_client entry) tr"
  using assms
  by (auto simp: ensure_logged_in_def token_valid_def async_setup_entry_client_def
      restore_tokens_def init_def Let_def split: option.splits)

lemma login_gets: "gets (snd (snd (login E c tr))) = gets tr"
  by (auto simp: login_def Let_def gets_def split: response.splits sum.splits option.splits)

lemma login_returns_token:
  assumes "login E c tr = (Inr u, c1, tr1)"
  shows "\<exists>t. reply_token E (length tr) = Some t \<and> token c1 = Some t"
  using assms
  by (auto simp: login_def Let_def reply_token_def
      split: response.splits sum.splits option.splits if_splits)

lemma call_after_login_raises:
  assumes "login E c tr = (Inl err, c1, tr1)"
  shows "call_after_login E c tr url params (Inl err, c1, tr1)"
  using assms login_gets [of E c tr] by (simp add: call_after_login_def)

lemma call_after_login_empty_token:
  assumes "login E c tr = (Inr u, c1, tr1)" and "token c1 = Some []"
  shows "call_after_login E c tr url params (Inl (HomGarApiError TokenNotAvailable), c1, tr1)"
  using assms login_gets [of E c tr] login_returns_token [OF assms(1)]
  by (auto simp: call_after_login_def)

lemma call_after_login_get:
  assumes "login E c tr = (Inr u, c1, tr1)" and "token c1 = Some t" and "t \<noteq> []"
  shows "call_after_login E c tr url params
           (r, c1, tr1 @ [HttpGet url params [(''auth'', t), (''lang'', ''en''), (''appCode'', ''1'')]])"
  using assms login_gets [of E c tr] login_returns_token [OF assms(1)]
  by (auto simp: call_after_login_def)

lemma list_homes_after_login:
  assumes "ensure_logged_in E c tr = login E c tr"
  shows "call_after_login E c tr (base_url @ ''/app/member/appHome/list'') []
           (list_homes E c tr)"
proof (cases "login E c tr")
  case (fields r c1 tr1)
  show ?thesis
  proof (cases r)
    case (Inl err)
    with fields assms show ?thesis
      by (simp add: list_homes_def call_after_login_raises)
  next
    case (Inr u)
    with fields have l: "login E c tr = (Inr u, c1, tr1)" by simp
    from login_returns_token [OF l] obtain t where t: "token c1 = Some t" by blast
    show ?thesis
    proof (cases "t = []")
      case True
      with l t assms show ?thesis
        by (simp add: list_homes_def auth_headers_def call_after_login_empty_token)
    next
      case False
      with l t assms show ?thesis
        by (simp add: list_homes_def auth_headers_def Let_def call_after_login_get)
    qed
  qed
qed

lemma get_devices_by_hid_after_login:
  assumes "ensure_logged_in E c tr = login E c tr"
  shows "call_after_login E c tr (base_url @ ''/app/device/getDeviceByHid'') [(''hid'', h)]
           (get_devices_by_hid E h c tr)"
proof (cases "login E c tr")
  case (fields r c1 tr1)
  show ?thesis
  proof (cases r)
    case (Inl err)
    with fields assms show ?thesis
      by (simp add: get_devices_by_hid_def call_after_login_raises)
  next
    case (Inr u)
    with fields have l: "login E c tr = (Inr u, c1, tr1)" by simp
    from login_returns_token [OF l] obtain t where t: "token c1 = Some t" by blast
    show ?thesis
    proof (cases "t = []")
      case True
      with l t assms show ?thesis
        by (simp add: get_devices_by_hid_def auth_headers_def call_after_login_empty_token)
    next
      case False
      with l t assms show ?thesis
        by (simp add: get_devices_by_hid_def auth_headers_def Let_def call_after_login_get)
    qed
  qed
qed

lemma get_device_status_after_login:
  assumes "ensure_logged_in E c tr = login E c tr"
  shows "call_after_login E c tr (base_url @ ''/app/device/getDeviceStatus'') [(''mid'', m)]
           (get_device_status E s0 m c tr)"
proof (cases "login E c tr")
  case (fields r c1 tr1)
  show ?thesis
  proof (cases r)
    case (Inl err)
    with fields assms show ?thesis
      by (simp add: get_device_status_def call_after_login_raises)
  next
    case (Inr u)
    with fields have l: "login E c tr = (Inr u, c1, tr1)" by simp
    from login_returns_token [OF l] obtain t where t: "token c1 = Some t" by blast
    show ?thesis
    proof (cases "t = []")
      case True
      with l t assms show ?thesis
        by (simp add: get_device_status_def auth_headers_def call_after_login_empty_token)
    next
      case False
      with l t assms show ?thesis
        by (simp add: get_device_status_def auth_headers_def Let_def call_after_login_get)
    qed
  qed
qed

text \<open>
  C9. When the token or the expiry instant of a client is unset, the validity check is
  false without a reading of the clock and \<open>ensure_logged_in\<close> is a full login. A new
  client restored from a snapshot with no expiry instant is such a client, whatever
  token the snapshot holds, and each of its three authenticated calls logs in first
  (\<open>call_after_login\<close>): the first event is the POST of the login; when the login
  raises, the call ends with that exception and sends no GET; when the login returns,
  the one GET the call sends comes after it and carries the token of the login's
  reply, not the token of the snapshot.
\<close>

theorem unset_token_state_logs_in:
  "(token c = None \<or> token_expires_at c = None \<longrightarrow>
      fst (token_valid E c tr) = False
    \<and> ensure_logged_in E c tr = login E c tr
    \<and> logins (snd (snd (ensure_logged_in E c tr))) = Suc (logins tr))
   \<and> (conf_token_expires_at d = None \<longrightarrow>
      fst (token_valid E (restore_tokens d (init a m p)) tr) = False
    \<and> ensure_logged_in E (restore_tokens d (init a m p)) tr = login E (restore_tokens d (init a m p)) tr
    \<and> (\<exists>q. take (Suc (length tr)) (snd (snd (list_homes E (restore_tokens d (init a m p)) tr)))
           = tr @ [HttpPost (base_url @ ''/auth/basic/app/login'') q])
    \<and> (\<exists>q. take (Suc (length tr)) (snd (snd (get_devices_by_hid E h (restore_tokens d (init a m p)) tr)))
           = tr @ [HttpPost (base_url @ ''/auth/basic/app/login'') q])
    \<and> (\<exists>q. take (Suc (length tr)) (snd (snd (get_device_status E s0 i (restore_tokens d (init a m p)) tr)))
           = tr @ [HttpPost (base_url @ ''/auth/basic/app/login'') q])
    \<and> call_after_login E (restore_tokens d (init a m p)) tr
         (base_url @ ''/app/member/appHome/list'') []
         (list_homes E (restore_tokens d (init a m p)) tr)
    \<and> call_after_login E (restore_tokens d (init a m p)) tr
         (base_url @ ''/app/device/getDeviceByHid'') [(''hid'', h)]
         (get_devices_by_hid E h (restore_tokens d (init a m p)) tr)
    \<and> call_after_login E (restore_tokens d (init a m p)) tr
         (base_url @ ''/app/device/getDeviceStatus'') [(''mid'', i)]
         (get_device_status E s0 i (restore_tokens d (init a m p)) tr))"
proof -
  have general: "fst (token_valid E c tr) = False \<and> ensure_logged_in E c tr = login E c tr
      \<and> logins (snd (snd (ensure_logged_in E c tr))) = Suc (logins tr)"
    if "token c = None \<or> token_expires_at c = None"
    using unset_means_login [OF that, of E tr] by (simp add: login_logins)
  have restored: "fst (token_valid E c' tr) = False \<and> ensure_logged_in E c' tr = login E c' tr
      \<and> (\<exists>q. take (Suc (length tr)) (snd (snd (list_homes E c' tr)))
             = tr @ [HttpPost (base_url @ ''/auth/basic/app/login'') q])
      \<and> (\<exists>q. take (Suc (length tr)) (snd (snd (get_devices_by_hid E h c' tr)))
             = tr @ [HttpPost (base_url @ ''/auth/basic/app/login'') q])
      \<and> (\<exists>q. take (Suc (length tr)) (snd (snd (get_device_status E s0 i c' tr)))
             = tr @ [HttpPost (base_url @ ''/auth/basic/app/login'') q])
      \<and> call_after_login E c' tr (base_url @ ''/app/member/appHome/list'') []
           (list_homes E c' tr)
      \<and> call_after_login E c' tr (base_url @ ''/app/device/getDeviceByHid'') [(''hid'', h)]
           (get_devices_by_hid E h c' tr)
      \<and> call_after_login E c' tr (base_url @ ''/app/device/getDeviceStatus'') [(''mid'', i)]
           (get_device_status E s0 i c' tr)"
    if d: "conf_token_expires_at d = None" and c': "c' = restore_tokens d (init a m p)" for c'
  proof -
    have "token_expires_at c' = None"
      using d c' by (simp add: restore_tokens_def init_def)
    then have u: "token c' = None \<or> token_expires_at c' = None" by simp
    note l = unset_means_login [OF u, of E tr]
    obtain q where q: "take (Suc (length tr)) (snd (snd (ensure_logged_in E c' tr)))
        = tr @ [HttpPost (base_url @ ''/auth/basic/app/login'') q]"
      using login_first_event [of tr E c'] l(2) by auto
    obtain r1 where r1: "snd (snd (list_homes E c' tr)) = snd (snd (ensure_logged_in E c' tr)) @ r1"
      using list_homes_trace_extends [of E c' tr] by blast
    obtain r2 where r2: "snd (snd (get_devices_by_hid E h c' tr)) = snd (snd (ensure_logged_in E c' tr)) @ r2"
      using get_devices_by_hid_trace_extends [of E h c' tr] by blast
    obtain r3 where r3: "snd (snd (get_device_status E s0 i c' tr)) = snd (snd (ensure_logged_in E c' tr)) @ r3"
      using get_device_status_trace_extends [of E s0 i c' tr] by blast
    have first: "(\<exists>q. take (Suc (length tr)) (snd (snd (list_homes E c' tr)))
             = tr @ [HttpPost (base_url @ ''/auth/basic/app/login'') q])
      \<and> (\<exists>q. take (Suc (length tr)) (snd (snd (get_devices_by_hid E h c' tr)))
             = tr @ [HttpPost (base_url @ ''/auth/basic/app/login'') q])
      \<and> (\<exists>q. take (Suc (length tr)) (snd (snd (get_device_status E s0 i c' tr)))
             = tr @ [HttpPost (base_url @ ''/auth/basic/app/login'') q])"
      using first_event_extends [OF q] r1 r2 r3 by auto
    show ?thesis
      using l first list_homes_after_login [OF l(2)]
        get_devices_by_hid_after_login [OF l(2), of h]
        get_device_status_after_login [OF l(2), of i s0]
      by simp
  qed
  show ?thesis
    using general restored by blast
qed

lemmas client_defs =
  ensure_logged_in_def token_valid_def login_def list_homes_def auth_headers_def init_def
  still_world_def base_url_def session_error_def timedelta_minutes_def timedelta_seconds_def

theorem unset_token_state_logs_in_witness:
  "list_homes
     (still_world 1700000000000000
        (Response 200 (Inr \<lparr>lb_code = Some 0,
           lb_data = Some \<lparr>ld_token = Some ''fresh'', ld_refreshToken = None, ld_tokenExpired = Some 3600\<rparr>,
           lb_ts = Some 1700000000000\<rparr>))
        (Response 200 (Inr \<lparr>ab_code = Some 0, ab_data = Some [\<lparr>hid = 7, homeName = ''Garden''\<rparr>]\<rparr>)))
     (restore_tokens
        \<lparr>conf_token = Some ''bare'', conf_refresh_token = None, conf_token_expires_at = None\<rparr>
        (init ''27'' ''a@b.c'' ''pw''))
     []
   = (Inr [\<lparr>hid = 7, homeName = ''Garden''\<rparr>],
      \<lparr>area_code = ''27'', email = ''a@b.c'', password = ''pw'', token = Some ''fresh'',
       refresh_token = None, token_expires_at = Some 1700003600000000\<rparr>,
      [HttpPost ''https://region3.homgarus.com/auth/basic/app/login''
         \<lparr>areaCode = ''27'', phoneOrEmail = ''a@b.c'', password_md5 = ''pw'', deviceId = ''a@b.c27''\<rparr>,
       HttpGet ''https://region3.homgarus.com/app/member/appHome/list'' []
         [(''auth'', ''fresh''), (''lang'', ''en''), (''appCode'', ''1'')]])
   \<and> list_homes
     (still_world 1700000000000000 (Response 401 (Inl SessionOtherException))
        (Response 200 (Inr \<lparr>ab_code = Some 0, ab_data = Some [\<lparr>hid = 7, homeName = ''Garden''\<rparr>]\<rparr>)))
     (restore_tokens
        \<lparr>conf_token = Some ''bare'', conf_refresh_token = None, conf_token_expires_at = None\<rparr>
        (init ''27'' ''a@b.c'' ''pw''))
     []
   = (Inl (HomGarApiError (LoginHttp 401)),
      \<lparr>area_code = ''27'', email = ''a@b.c'', password = ''pw'', token = Some ''bare'',
       refresh_token = None, token_expires_at = None\<rparr>,
      [HttpPost ''https://region3.homgarus.com/auth/basic/app/login''
         \<lparr>areaCode = ''27'', phoneOrEmail = ''a@b.c'', password_md5 = ''pw'', deviceId = ''a@b.c27''\<rparr>])"
proof -
  let ?E = "still_world 1700000000000000
        (Response 200 (Inr \<lparr>lb_code = Some 0,
           lb_data = Some \<lparr>ld_token = Some ''fresh'', ld_refreshToken = None, ld_tokenExpired = Some 3600\<rparr>,
           lb_ts = Some 1700000000000\<rparr>))
        (Response 200 (Inr \<lparr>ab_code = Some 0, ab_data = Some [\<lparr>hid = 7, homeName = ''Garden''\<rparr>]\<rparr>))"
  let ?d = "\<lparr>conf_token = Some ''bare'', conf_refresh_token = None, conf_token_expires_at = None\<rparr>"
  let ?c = "restore_tokens ?d (init ''27'' ''a@b.c'' ''pw'')"
  have h: "conf_token_expires_at ?d = None" by simp
  from unset_token_state_logs_in [of _ ?E "[]" ?d "''27''" "''a@b.c''" "''pw''"] h
  have l: "ensure_logged_in ?E ?c [] = login ?E ?c []"
    by blast
  have "login ?E ?c [] =
      (Inr (),
       \<lparr>area_code = ''27'', email = ''a@b.c'', password = ''pw'', token = Some ''fresh'',
        refresh_token = None, token_expires_at = Some 1700003600000000\<rparr>,
       [HttpPost ''https://region3.homgarus.com/auth/basic/app/login''
          \<lparr>areaCode = ''27'', phoneOrEmail = ''a@b.c'', password_md5 = ''pw'', deviceId = ''a@b.c27''\<rparr>])"
    by (simp add: login_def restore_tokens_def init_def still_world_def base_url_def
        timedelta_seconds_def)
  with l have ok: "list_homes ?E ?c [] =
      (Inr [\<lparr>hid = 7, homeName = ''Garden''\<rparr>],
       \<lparr>area_code = ''27'', email = ''a@b.c'', password = ''pw'', token = Some ''fresh'',
        refresh_token = None, token_expires_at = Some 1700003600000000\<rparr>,
       [HttpPost ''https://region3.homgarus.com/auth/basic/app/login''
          \<lparr>areaCode = ''27'', phoneOrEmail = ''a@b.c'', password_md5 = ''pw'', deviceId = ''a@b.c27''\<rparr>,
        HttpGet ''https://region3.homgarus.com/app/member/appHome/list'' []
          [(''auth'', ''fresh''), (''lang'', ''en''), (''appCode'', ''1'')]])"
    by (simp add: list_homes_def auth_headers_def still_world_def base_url_def)
  let ?F = "still_world 1700000000000000 (Response 401 (Inl SessionOtherException))
        (Response 200 (Inr \<lparr>ab_code = Some 0, ab_data = Some [\<lparr>hid = 7, homeName = ''Garden''\<rparr>]\<rparr>))"
  have refused: "login ?F ?c [] =
      (Inl (HomGarApiError (LoginHttp 401)),
       \<lparr>area_code = ''27'', email = ''a@b.c'', password = ''pw'', token = Some ''bare'',
        refresh_token = None, token_expires_at = None\<rparr>,
       [HttpPost ''https://region3.homgarus.com/auth/basic/app/login''
          \<lparr>areaCode = ''27'', phoneOrEmail = ''a@b.c'', password_md5 = ''pw'', deviceId = ''a@b.c27''\<rparr>])"
    by (simp add: login_def restore_tokens_def init_def still_world_def base_url_def)
  from unset_token_state_logs_in [of _ ?F "[]" ?d "''27''" "''a@b.c''" "''pw''"] h
  have "call_after_login ?F ?c [] (base_url @ ''/app/member/appHome/list'') []
      (list_homes ?F ?c [])"
    by blast
  with refused have stop: "list_homes ?F ?c [] =
      (Inl (HomGarApiError (LoginHttp 401)),
       \<lparr>area_code = ''27'', email = ''a@b.c'', password = ''pw'', token = Some ''bare'',
        refresh_token = None, token_expires_at = None\<rparr>,
       [HttpPost ''https://region3.homgarus.com/auth/basic/app/login''
          \<lparr>areaCode = ''27'', phoneOrEmail = ''a@b.c'', password_md5 = ''pw'', deviceId = ''a@b.c27''\<rparr>])"
    by (simp add: call_after_login_def)
  from ok stop show ?thesis
    by simp
qed

section \<open>Facts about the wizard\<close>

text \<open>
  C8. When the submitted email is the email of an entry already configured through the
  wizard (an entry stored under the key made of the domain name and its email), the
  step \<^verbatim>\<open>user\<close> aborts with \<^verbatim>\<open>already_configured\<close>: the trace is unchanged (no
  request, no reading of the clock), the flow keeps no client, and the result is not the
  creation of an entry.
\<close>

theorem async_step_user_aborts_configured:
  assumes "e \<in> set entries"
    and "entry_unique_id e = Some (DOMAIN @ ''_'' @ conf_email (entry_data e))"
    and "ui_email ui = conf_email (entry_data e)"
  shows "async_step_user E entries (Some ui) fl tr =
           (Inl (AbortFlow ''already_configured''),
            async_set_unique_id (DOMAIN @ ''_'' @ ui_email ui) fl, tr)
       \<and> flow_client (fst (snd (async_step_user E entries (Some ui) fl tr))) = flow_client fl
       \<and> (\<forall>title data. fst (async_step_user E entries (Some ui) fl tr) \<noteq> Inr (CreateEntry title data))"
proof -
  let ?fl1 = "async_set_unique_id (DOMAIN @ ''_'' @ ui_email ui) fl"
  have "Some (DOMAIN @ ''_'' @ ui_email ui) \<in> set (map entry_unique_id entries)"
    using assms by force
  then have "abort_if_unique_id_configured entries ?fl1 = Inl (AbortFlow ''already_configured'')"
    by (simp add: abort_if_unique_id_configured_def async_set_unique_id_def)
  then have "async_step_user E entries (Some ui) fl tr =
      (Inl (AbortFlow ''already_configured''), ?fl1, tr)"
    by (simp add: async_step_user_def Let_def)
  then show ?thesis
    by (simp add: async_set_unique_id_def)
qed

theorem async_step_user_aborts_configured_witness:
  "async_step_user
     (still_world 1700000000000000 (Raises SessionClientError) (Raises SessionClientError))
     [\<lparr>entry_unique_id = Some ''homgar_a@b.c'', entry_title = ''HomGar (a@b.c)'',
       entry_data = \<lparr>conf_token = None, conf_refresh_token = None, conf_token_expires_at = None,
                     conf_area_code = ''27'', conf_email = ''a@b.c'', conf_password = ''pw'',
                     conf_hids = [7]\<rparr>\<rparr>]
     (Some \<lparr>ui_area_code = ''27'', ui_email = ''a@b.c'', ui_password = ''other''\<rparr>)
     \<lparr>unique_id = None, flow_area_code = None, flow_email = None, flow_password = None,
      flow_homes = None, flow_client = None\<rparr>
     []
   = (Inl (AbortFlow ''already_configured''),
      \<lparr>unique_id = Some ''homgar_a@b.c'', flow_area_code = None, flow_email = None,
       flow_password = None, flow_homes = None, flow_client = None\<rparr>,
      [])"
proof -
  let ?e = "\<lparr>entry_unique_id = Some ''homgar_a@b.c'', entry_title = ''HomGar (a@b.c)'',
       entry_data = \<lparr>conf_token = None, conf_refresh_token = None, conf_token_expires_at = None,
                     conf_area_code = ''27'', conf_email = ''a@b.c'', conf_password = ''pw'',
                     conf_hids = [7]\<rparr>\<rparr>"
  let ?ui = "\<lparr>ui_area_code = ''27'', ui_email = ''a@b.c'', ui_password = ''other''\<rparr>"
  have h1: "?e \<in> set [?e]" by simp
  have h2: "entry_unique_id ?e = Some (DOMAIN @ ''_'' @ conf_email (entry_data ?e))"
    by (simp add: DOMAIN_def)
  have h3: "ui_email ?ui = conf_email (entry_data ?e)" by simp
  show ?thesis
    using async_step_user_aborts_configured [OF h1 h2 h3,
        where E = "still_world 1700000000000000 (Raises SessionClientError) (Raises SessionClientError)"
          and fl = "\<lparr>unique_id = None, flow_area_code = None, flow_email = None,
             flow_password = None, flow_homes = None, flow_client = None\<rparr>"
          and tr = "[]"]
    by (simp add: DOMAIN_def async_set_unique_id_def)
qed

lemma async_step_user_login_raises:
  assumes "abort_if_unique_id_configured entries (async_set_unique_id (DOMAIN @ ''_'' @ ui_email ui) fl) = Inr ()"
    and "ensure_logged_in E (init (ui_area_code ui) (ui_email ui) (ui_password ui)) tr = (Inl err, c1, tr1)"
  shows "async_step_user E entries (Some ui) fl tr =
     (case err of
        HomGarApiError x \<Rightarrow> Inr (ShowForm ''user'' UserSchema [(''base'', ''auth_failed'')])
      | ClientError \<Rightarrow> Inr (ShowForm ''user'' UserSchema [(''base'', ''cannot_connect'')])
      | _ \<Rightarrow> Inl err,
      async_set_unique_id (DOMAIN @ ''_'' @ ui_email ui) fl, tr1)"
  using assms by (simp add: async_step_user_def Let_def split: error.splits)

lemma async_step_user_homes_raises:
  assumes "abort_if_unique_id_configured entries (async_set_unique_id (DOMAIN @ ''_'' @ ui_email ui) fl) = Inr ()"
    and "ensure_logged_in E (init (ui_area_code ui) (ui_email ui) (ui_password ui)) tr = (Inr u, c1, tr1)"
    and "list_homes E c1 tr1 = (Inl err, c2, tr2)"
  shows "async_step_user E entries (Some ui) fl tr =
     (case err of
        HomGarApiError x \<Rightarrow> Inr (ShowForm ''user'' UserSchema [(''base'', ''auth_failed'')])
      | ClientError \<Rightarrow> Inr (ShowForm ''user'' UserSchema [(''base'', ''cannot_connect'')])
      | _ \<Rightarrow> Inl err,
      async_set_unique_id (DOMAIN @ ''_'' @ ui_email ui) fl, tr2)"
  using assms by (simp add: async_step_user_def Let_def split: error.splits)

lemma async_step_user_homes_returns:
  assumes "abort_if_unique_id_configured entries (async_set_unique_id (DOMAIN @ ''_'' @ ui_email ui) fl) = Inr ()"
    and "ensure_logged_in E (init (ui_area_code ui) (ui_email ui) (ui_password ui)) tr = (Inr u, c1, tr1)"
    and "list_homes E c1 tr1 = (Inr homes, c2, tr2)"
  shows "\<exists>sid sch errs fl'. async_step_user E entries (Some ui) fl tr = (Inr (ShowForm sid sch errs), fl', tr2)
     \<and> (''base'', ''cannot_connect'') \<notin> set errs"
  using assms by (simp add: async_step_user_def Let_def async_step_select_homes_def)

text \<open>
  C10. In the step \<^verbatim>\<open>user\<close>, for a key that is not configured yet: a \<open>HomGarApiError\<close>
  raised by the first \<open>ensure_logged_in\<close>, whatever its raise site, gives the form with
  the marker \<^verbatim>\<open>auth_failed\<close>, and so does one raised by \<open>list_homes\<close> after that login
  returned; the step gives a form with the marker \<^verbatim>\<open>cannot_connect\<close> exactly when one
  of the two calls raised the session's \<open>ClientError\<close>.
\<close>

theorem async_step_user_error_markers:
  assumes nc: "abort_if_unique_id_configured entries (async_set_unique_id (DOMAIN @ ''_'' @ ui_email ui) fl) = Inr ()"
  shows "(ensure_logged_in E (init (ui_area_code ui) (ui_email ui) (ui_password ui)) tr
            = (Inl (HomGarApiError x), c1, tr1) \<longrightarrow>
          async_step_user E entries (Some ui) fl tr =
            (Inr (ShowForm ''user'' UserSchema [(''base'', ''auth_failed'')]),
             async_set_unique_id (DOMAIN @ ''_'' @ ui_email ui) fl, tr1))
       \<and> (ensure_logged_in E (init (ui_area_code ui) (ui_email ui) (ui_password ui)) tr
            = (Inr (), c1, tr1)
          \<and> list_homes E c1 tr1 = (Inl (HomGarApiError x), c2, tr2) \<longrightarrow>
          async_step_user E entries (Some ui) fl tr =
            (Inr (ShowForm ''user'' UserSchema [(''base'', ''auth_failed'')]),
             async_set_unique_id (DOMAIN @ ''_'' @ ui_email ui) fl, tr2))
       \<and> ((\<exists>sid sch errs fl' tr'.
              async_step_user E entries (Some ui) fl tr = (Inr (ShowForm sid sch errs), fl', tr')
              \<and> (''base'', ''cannot_connect'') \<in> set errs)
          = ((\<exists>c tr'. ensure_logged_in E (init (ui_area_code ui) (ui_email ui) (ui_password ui)) tr
                        = (Inl ClientError, c, tr'))
             \<or> (\<exists>c tr' c' tr''.
                  ensure_logged_in E (init (ui_area_code ui) (ui_email ui) (ui_password ui)) tr
                    = (Inr (), c, tr')
                  \<and> list_homes E c tr' = (Inl ClientError, c', tr''))))"
proof -
  let ?cl = "init (ui_area_code ui) (ui_email ui) (ui_password ui)"
  let ?step = "async_step_user E entries (Some ui) fl tr"
  let ?marked = "\<exists>sid sch errs fl' tr'. ?step = (Inr (ShowForm sid sch errs), fl', tr')
      \<and> (''base'', ''cannot_connect'') \<in> set errs"
  let ?transport = "(\<exists>c tr'. ensure_logged_in E ?cl tr = (Inl ClientError, c, tr'))
      \<or> (\<exists>c tr' c' tr''. ensure_logged_in E ?cl tr = (Inr (), c, tr')
            \<and> list_homes E c tr' = (Inl ClientError, c', tr''))"
  have a: "?step = (Inr (ShowForm ''user'' UserSchema [(''base'', ''auth_failed'')]),
        async_set_unique_id (DOMAIN @ ''_'' @ ui_email ui) fl, tr1)"
    if "ensure_logged_in E ?cl tr = (Inl (HomGarApiError x), c1, tr1)"
    using async_step_user_login_raises [OF nc that] by simp
  have b: "?step = (Inr (ShowForm ''user'' UserSchema [(''base'', ''auth_failed'')]),
        async_set_unique_id (DOMAIN @ ''_'' @ ui_email ui) fl, tr2)"
    if "ensure_logged_in E ?cl tr = (Inr (), c1, tr1)"
      and "list_homes E c1 tr1 = (Inl (HomGarApiError x), c2, tr2)"
    using async_step_user_homes_raises [OF nc that] by simp
  have c: "?marked = ?transport"
  proof (cases "ensure_logged_in E ?cl tr")
    case (fields r ca tra)
    show ?thesis
    proof (cases r)
      case (Inl err)
      with fields have l: "ensure_logged_in E ?cl tr = (Inl err, ca, tra)" by simp
      show ?thesis
        using async_step_user_login_raises [OF nc l] l
        by (cases err) auto
    next
      case (Inr u)
      with fields have l: "ensure_logged_in E ?cl tr = (Inr (), ca, tra)" by simp
      show ?thesis
      proof (cases "list_homes E ca tra")
        case (fields r' cb trb)
        show ?thesis
        proof (cases r')
          case (Inl err)
          with fields have h: "list_homes E ca tra = (Inl err, cb, trb)" by simp
          show ?thesis
            using async_step_user_homes_raises [OF nc l h] l h
            by (cases err) auto
        next
          case (Inr homes)
          with fields have h: "list_homes E ca tra = (Inr homes, cb, trb)" by simp
          show ?thesis
            using async_step_user_homes_returns [OF nc l h] l h
            by auto
        qed
      qed
    qed
  qed
  from a b c show ?thesis by blast
qed


theorem async_step_user_error_markers_witness:
  "async_step_user
     (still_world 1700000000000000 (Response 500 (Inl SessionOtherException)) (Raises SessionClientError))
     [] (Some \<lparr>ui_area_code = ''27'', ui_email = ''a@b.c'', ui_password = ''pw''\<rparr>)
     \<lparr>unique_id = None, flow_area_code = None, flow_email = None, flow_password = None,
      flow_homes = None, flow_client = None\<rparr> []
   = (Inr (ShowForm ''user'' UserSchema [(''base'', ''auth_failed'')]),
      \<lparr>unique_id = Some ''homgar_a@b.c'', flow_area_code = None, flow_email = None,
       flow_password = None, flow_homes = None, flow_client = None\<rparr>,
      [HttpPost ''https://region3.homgarus.com/auth/basic/app/login''
         \<lparr>areaCode = ''27'', phoneOrEmail = ''a@b.c'', password_md5 = ''pw'', deviceId = ''a@b.c27''\<rparr>])
   \<and> fst (async_step_user
     (still_world 1700000000000000
        (Response 200 (Inr \<lparr>lb_code = Some 0,
           lb_data = Some \<lparr>ld_token = Some ''fresh'', ld_refreshToken = None, ld_tokenExpired = Some 3600\<rparr>,
           lb_ts = Some 1700000000000\<rparr>))
        (Response 200 (Inr \<lparr>ab_code = Some 1, ab_data = None\<rparr>)))
     [] (Some \<lparr>ui_area_code = ''27'', ui_email = ''a@b.c'', ui_password = ''pw''\<rparr>)
     \<lparr>unique_id = None, flow_area_code = None, flow_email = None, flow_password = None,
      flow_homes = None, flow_client = None\<rparr> [])
   = Inr (ShowForm ''user'' UserSchema [(''base'', ''auth_failed'')])
   \<and> (\<exists>sid sch errs fl' tr'.
        async_step_user
          (still_world 1700000000000000 (Raises SessionClientError) (Raises SessionClientError))
          [] (Some \<lparr>ui_area_code = ''27'', ui_email = ''a@b.c'', ui_password = ''pw''\<rparr>)
          \<lparr>unique_id = None, flow_area_code = None, flow_email = None, flow_password = None,
           flow_homes = None, flow_client = None\<rparr> []
        = (Inr (ShowForm sid sch errs), fl', tr')
        \<and> (''base'', ''cannot_connect'') \<in> set errs)"
proof -
  let ?ui = "\<lparr>ui_area_code = ''27'', ui_email = ''a@b.c'', ui_password = ''pw''\<rparr>"
  let ?fl = "\<lparr>unique_id = None, flow_area_code = None, flow_email = None, flow_password = None,
      flow_homes = None, flow_client = None\<rparr>"
  let ?E1 = "still_world 1700000000000000 (Response 500 (Inl SessionOtherException)) (Raises SessionClientError)"
  let ?E2 = "still_world 1700000000000000
        (Response 200 (Inr \<lparr>lb_code = Some 0,
           lb_data = Some \<lparr>ld_token = Some ''fresh'', ld_refreshToken = None, ld_tokenExpired = Some 3600\<rparr>,
           lb_ts = Some 1700000000000\<rparr>))
        (Response 200 (Inr \<lparr>ab_code = Some 1, ab_data = None\<rparr>))"
  let ?E3 = "still_world 1700000000000000 (Raises SessionClientError) (Raises SessionClientError)"
  let ?cl = "init (ui_area_code ?ui) (ui_email ?ui) (ui_password ?ui)"
  let ?post = "HttpPost ''https://region3.homgarus.com/auth/basic/app/login''
         \<lparr>areaCode = ''27'', phoneOrEmail = ''a@b.c'', password_md5 = ''pw'', deviceId = ''a@b.c27''\<rparr>"
  let ?c1 = "\<lparr>area_code = ''27'', email = ''a@b.c'', password = ''pw'', token = Some ''fresh'',
       refresh_token = None, token_expires_at = Some (1700003600000000::int)\<rparr>"
  have nc: "abort_if_unique_id_configured [] (async_set_unique_id (DOMAIN @ ''_'' @ ui_email ?ui) ?fl) = Inr ()"
    by (simp add: abort_if_unique_id_configured_def async_set_unique_id_def)
  have l1: "ensure_logged_in ?E1 ?cl [] = (Inl (HomGarApiError (LoginHttp 500)), ?cl, [?post])"
    by (simp add: client_defs)
  have l2: "ensure_logged_in ?E2 ?cl [] = (Inr (), ?c1, [?post])"
    by (simp add: client_defs)
  have h2: "list_homes ?E2 ?c1 [?post] =
      (Inl (HomGarApiError CallFailed), ?c1,
       [?post, ClockRead,
        HttpGet ''https://region3.homgarus.com/app/member/appHome/list'' []
          [(''auth'', ''fresh''), (''lang'', ''en''), (''appCode'', ''1'')]])"
    by (simp add: client_defs)
  from async_step_user_error_markers [OF nc, of ?E1 "[]" "LoginHttp 500" ?cl "[?post]"] l1
  have a: "async_step_user ?E1 [] (Some ?ui) ?fl [] =
      (Inr (ShowForm ''user'' UserSchema [(''base'', ''auth_failed'')]),
       async_set_unique_id (DOMAIN @ ''_'' @ ui_email ?ui) ?fl, [?post])"
    by blast
  from async_step_user_error_markers [OF nc, of ?E2 "[]" CallFailed ?c1 "[?post]"] l2 h2
  have b: "fst (async_step_user ?E2 [] (Some ?ui) ?fl []) =
      Inr (ShowForm ''user'' UserSchema [(''base'', ''auth_failed'')])"
    by (metis fst_conv)
  have l3: "ensure_logged_in ?E3 ?cl [] = (Inl ClientError, ?cl, [?post])"
    by (simp add: client_defs)
  from async_step_user_error_markers [OF nc, of ?E3 "[]"] l3
  have c: "\<exists>sid sch errs fl' tr'.
      async_step_user ?E3 [] (Some ?ui) ?fl [] = (Inr (ShowForm sid sch errs), fl', tr')
      \<and> (''base'', ''cannot_connect'') \<in> set errs"
    by blast
  from a b c show ?thesis
    by (simp add: DOMAIN_def async_set_unique_id_def)
qed

end
